theory Spec2Isabelle
  imports Main "HOL-Library.Word"
begin

section \<open>Synchronized checkpoints (checkpointsync.cpp)\<close>

text \<open>
  A shallow embedding of \<^verbatim>\<open>src/checkpointsync.cpp\<close>. The file keeps its checkpoint
  data in process-wide variables and consults external collaborators (the block index,
  the active chain, the block-tree database, the signature primitives). The embedding
  threads the variables through every function as a record \<open>cpstate\<close>, and passes the
  collaborators as a record \<open>env\<close>, so that a function of the source
  \<^verbatim>\<open>bool F(args)\<close> becomes \<open>F env args s = (result, s')\<close>. A
  \<^verbatim>\<open>return error(...)\<close> writes to the log and returns false; the log is not modelled,
  and neither are the lock \<^verbatim>\<open>cs_hashSyncCheckpoint\<close> (every function runs to its end
  under it) and the relay of messages to peers.
\<close>

subsection \<open>Data\<close>

type_synonym uint256 = "256 word"
type_synonym byte = "8 word"

text \<open>
  \<^verbatim>\<open>CBlockIndex\<close>: the fields this file reads. The entries of the block index are
  never modified here and every \<^verbatim>\<open>pprev\<close> points to an entry created earlier, so an
  entry is modelled as a value that carries its parent (\<open>None\<close> is the null pointer),
  and the comparison of two entry pointers as the comparison of the values.
  \<^verbatim>\<open>nHeight\<close> is a C++ \<^verbatim>\<open>int\<close>.
\<close>

datatype CBlockIndex =
  CBlockIndex (phashBlock: uint256) (nHeight: int) (pprev: "CBlockIndex option")

definition GetBlockHash :: "CBlockIndex \<Rightarrow> uint256" where
  "GetBlockHash pindex = phashBlock pindex"

text \<open>
  \<^verbatim>\<open>CSyncCheckpoint\<close> (derived from \<^verbatim>\<open>CUnsignedSyncCheckpoint\<close>): the unsigned part
  \<open>nVersion\<close>, \<open>hashCheckpoint\<close>, and the signed payload with its signature.
\<close>

record CSyncCheckpoint =
  nVersion :: int
  hashCheckpoint :: uint256
  vchMsg :: "byte list"
  vchSig :: "byte list"

text \<open>
  Modelled from the spec: \<^verbatim>\<open>CSyncCheckpoint::SetNull\<close> is declared in
  checkpointsync.h, which is not part of the sources at hand. The spec keeps the pending hash and
  the pending message "both present or both absent" and uses the all-zero hash for
  "absent"; the null message has the all-zero hash, empty payload and signature, and
  the version number 1 of the message format.
\<close>

definition SetNull :: CSyncCheckpoint where
  "SetNull = \<lparr>nVersion = 1, hashCheckpoint = 0, vchMsg = [], vchSig = []\<rparr>"

text \<open>
  \<^verbatim>\<open>chainActive\<close>: the two queries this file makes of the active chain
  (\<^verbatim>\<open>CChain\<close> is declared in chain.h), taken as parameters: the tip (\<open>None\<close> for an empty
  chain) and the membership test.
\<close>

record CChain =
  Tip :: "CBlockIndex option"
  Contains :: "CBlockIndex \<Rightarrow> bool"

text \<open>
  The collaborators, as each function of this file sees them during one call:
  \<^item> \<open>mapBlockIndex\<close>: the block index, from block hash to entry;
  \<^item> \<open>chainActive\<close>: the active chain;
  \<^item> \<open>hashGenesisBlock\<close>: \<^verbatim>\<open>Params().GetConsensus().hashGenesisBlock\<close>;
  \<^item> \<open>checkpointdepth\<close>: \<^verbatim>\<open>(int)GetArg("-checkpointdepth", -1)\<close>;
  \<^item> \<open>GetLatestHardenedCheckpoint\<close>: the hash
    \<^verbatim>\<open>Checkpoints::GetLatestHardenedCheckpoint(Params().Checkpoints())\<close>;
  \<^item> \<open>Verify msg sig\<close>: whether \<^verbatim>\<open>sig\<close> is a signature of the hash of \<^verbatim>\<open>msg\<close>
    under the master public key of the consensus parameters (\<^verbatim>\<open>CPubKey::Verify\<close>);
  \<^item> \<open>Unserialize msg\<close>: the version and checkpoint hash that reading the payload
    into a \<^verbatim>\<open>CUnsignedSyncCheckpoint\<close> yields, \<open>None\<close> when the stream throws;
  \<^item> \<open>txdbWrite h\<close>: whether \<^verbatim>\<open>pblocktree->WriteSyncCheckpoint(h)\<close> succeeds.
\<close>

record env =
  mapBlockIndex :: "uint256 \<rightharpoonup> CBlockIndex"
  chainActive :: CChain
  hashGenesisBlock :: uint256
  checkpointdepth :: int
  GetLatestHardenedCheckpoint :: uint256
  Verify :: "byte list \<Rightarrow> byte list \<Rightarrow> bool"
  Unserialize :: "byte list \<Rightarrow> (int \<times> uint256) option"
  txdbWrite :: "uint256 \<Rightarrow> bool"

text \<open>
  The variables of the file, and the sync-checkpoint key of the block-tree database
  (\<open>txdbSyncCheckpoint\<close>, \<open>None\<close> while nothing has been written).
\<close>

record cpstate =
  hashSyncCheckpoint :: uint256
  hashPendingCheckpoint :: uint256
  checkpointMessage :: CSyncCheckpoint
  checkpointMessagePending :: CSyncCheckpoint
  hashInvalidCheckpoint :: uint256
  txdbSyncCheckpoint :: "uint256 option"

text \<open>The exception that can leave this file: the payload stream running short.\<close>

datatype error = UnserializeFailure

subsection \<open>C++ \<^verbatim>\<open>int\<close> arithmetic\<close>

text \<open>
  Heights are 32-bit signed integers. An addition is written with the two's-complement
  wrap-around that the compiled code shows on overflow; the theorems below are stated
  where no addition overflows.
\<close>

definition INT_MAX :: int where
  "INT_MAX = 2147483647"

definition INT_MIN :: int where
  "INT_MIN = - 2147483648"

definition wrap32 :: "int \<Rightarrow> int" where
  "wrap32 x = (x + 2147483648) mod 4294967296 - 2147483648"

definition int_add :: "int \<Rightarrow> int \<Rightarrow> int" where
  "int_add a b = wrap32 (a + b)"

subsection \<open>ValidateSyncCheckpoint\<close>

text \<open>
  The loop \<^verbatim>\<open>while (pindex->nHeight > h) if (!(pindex = pindex->pprev)) return error(...)\<close>
  of \<^verbatim>\<open>ValidateSyncCheckpoint\<close> and of \<^verbatim>\<open>CheckSyncCheckpoint\<close>: \<open>None\<close> is the
  error return, \<open>Some pindex\<close> the entry at which the loop ends.
\<close>

fun trace_back :: "int \<Rightarrow> CBlockIndex \<Rightarrow> CBlockIndex option" where
  "trace_back h (CBlockIndex hb nh pp) =
     (if nh > h
      then (case pp of None \<Rightarrow> None | Some p \<Rightarrow> trace_back h p)
      else Some (CBlockIndex hb nh pp))"

definition ValidateSyncCheckpoint :: "env \<Rightarrow> uint256 \<Rightarrow> cpstate \<Rightarrow> bool \<times> cpstate" where
  "ValidateSyncCheckpoint e hashCheckpoint' s =
     (case mapBlockIndex e (hashSyncCheckpoint s) of
        None \<Rightarrow> (False, s)
      | Some pindexSyncCheckpoint \<Rightarrow>
     (case mapBlockIndex e hashCheckpoint' of
        None \<Rightarrow> (False, s)
      | Some pindexCheckpointRecv \<Rightarrow>
          if nHeight pindexCheckpointRecv \<le> nHeight pindexSyncCheckpoint
          then (if \<not> Contains (chainActive e) pindexCheckpointRecv
                then (False, s\<lparr>hashInvalidCheckpoint := hashCheckpoint'\<rparr>)
                else (False, s))
          else (case trace_back (nHeight pindexSyncCheckpoint) pindexCheckpointRecv of
                  None \<Rightarrow> (False, s)
                | Some pindex \<Rightarrow>
                    if GetBlockHash pindex \<noteq> hashSyncCheckpoint s
                    then (False, s\<lparr>hashInvalidCheckpoint := hashCheckpoint'\<rparr>)
                    else (True, s))))"

subsection \<open>WriteSyncCheckpoint\<close>

definition WriteSyncCheckpoint :: "env \<Rightarrow> uint256 \<Rightarrow> cpstate \<Rightarrow> bool \<times> cpstate" where
  "WriteSyncCheckpoint e hashCheckpoint' s =
     (if \<not> txdbWrite e hashCheckpoint'
      then (False, s)
      else (True, s\<lparr>txdbSyncCheckpoint := Some hashCheckpoint',
                     hashSyncCheckpoint := hashCheckpoint'\<rparr>))"

subsection \<open>AcceptPendingSyncCheckpoint\<close>

text \<open>
  The relay of the accepted message to the peers at the end of the function touches no
  variable of this file and is left out. The lookup \<^verbatim>\<open>mapBlockIndex[hashPendingCheckpoint]\<close>
  follows a successful \<^verbatim>\<open>count\<close>, so its \<open>None\<close> branch is never taken.
\<close>

definition AcceptPendingSyncCheckpoint :: "env \<Rightarrow> cpstate \<Rightarrow> bool \<times> cpstate" where
  "AcceptPendingSyncCheckpoint e s =
     (let havePendingCheckpoint =
            (hashPendingCheckpoint s \<noteq> 0 \<and> mapBlockIndex e (hashPendingCheckpoint s) \<noteq> None)
      in if \<not> havePendingCheckpoint then (False, s)
         else (case ValidateSyncCheckpoint e (hashPendingCheckpoint s) s of
                 (False, s1) \<Rightarrow>
                   (False, s1\<lparr>hashPendingCheckpoint := 0, checkpointMessagePending := SetNull\<rparr>)
               | (True, s1) \<Rightarrow>
                   (case mapBlockIndex e (hashPendingCheckpoint s1) of
                      None \<Rightarrow> (False, s1)
                    | Some pindex \<Rightarrow>
                        if \<not> Contains (chainActive e) pindex then (False, s1)
                        else (case WriteSyncCheckpoint e (hashPendingCheckpoint s1) s1 of
                                (False, s2) \<Rightarrow> (False, s2)
                              | (True, s2) \<Rightarrow>
                                  (True, s2\<lparr>hashPendingCheckpoint := 0,
                                            checkpointMessage := checkpointMessagePending s2,
                                            checkpointMessagePending := SetNull\<rparr>)))))"

subsection \<open>AutoSelectSyncCheckpoint\<close>



subsection \<open>CheckSyncCheckpoint\<close>

text \<open>
  The result of \<^verbatim>\<open>WriteSyncCheckpoint\<close> is dropped in the reset branch, as in the source.
  \<open>after_trace\<close> is the rest of the function after the block of the first \<^verbatim>\<open>if\<close>; the
  lookup of the checkpoint's entry follows a successful \<^verbatim>\<open>count\<close>, so its \<open>None\<close> branch is
  never taken.
\<close>

definition CheckSyncCheckpoint ::
  "env \<Rightarrow> uint256 \<Rightarrow> CBlockIndex \<Rightarrow> cpstate \<Rightarrow> bool \<times> cpstate" where
  "CheckSyncCheckpoint e hashBlock pindexPrev s =
     (let nHeight' = int_add (nHeight pindexPrev) 1 in
      if hashSyncCheckpoint s = 0 \<or> mapBlockIndex e (hashSyncCheckpoint s) = None
      then (True, snd (WriteSyncCheckpoint e (hashGenesisBlock e) s))
      else (case mapBlockIndex e (hashSyncCheckpoint s) of
              None \<Rightarrow> (True, s)
            | Some pindexSync \<Rightarrow>
                let after_trace =
                      (if nHeight' = nHeight pindexSync \<and> hashBlock \<noteq> hashSyncCheckpoint s
                       then (False, s)
                       else if nHeight' < nHeight pindexSync \<and> mapBlockIndex e hashBlock = None
                       then (False, s)
                       else (True, s))
                in if nHeight' > nHeight pindexSync
                   then (case trace_back (nHeight pindexSync) pindexPrev of
                           None \<Rightarrow> (False, s)
                         | Some pindex \<Rightarrow>
                             if \<not> Contains (chainActive e) pindex then (False, s)
                             else after_trace)
                   else after_trace))"

subsection \<open>ResetSyncCheckpoint\<close>

definition ResetSyncCheckpoint :: "env \<Rightarrow> cpstate \<Rightarrow> bool \<times> cpstate" where
  "ResetSyncCheckpoint e s =
     (let checkpointHash = GetLatestHardenedCheckpoint e;
          s1 = (if mapBlockIndex e checkpointHash = None
                then s\<lparr>checkpointMessagePending := SetNull,
                       hashPendingCheckpoint := checkpointHash\<rparr>
                else s);
          target = (case mapBlockIndex e checkpointHash of
                      None \<Rightarrow> hashGenesisBlock e
                    | Some pindex \<Rightarrow>
                        if Contains (chainActive e) pindex then checkpointHash
                        else hashGenesisBlock e)
      in WriteSyncCheckpoint e target s1)"

subsection \<open>CSyncCheckpoint::CheckSignature and CSyncCheckpoint::ProcessSyncCheckpoint\<close>

text \<open>
  \<^verbatim>\<open>CheckSignature\<close> is a member function that overwrites the unsigned part of the
  message it is called on; the model returns the message as it is afterwards.
  \<^verbatim>\<open>ProcessSyncCheckpoint\<close> does not use its argument \<^verbatim>\<open>pfrom\<close>, which is left out.
\<close>

definition CheckSignature :: "env \<Rightarrow> CSyncCheckpoint \<Rightarrow> error + (bool \<times> CSyncCheckpoint)" where
  "CheckSignature e this =
     (if \<not> Verify e (vchMsg this) (vchSig this) then Inr (False, this)
      else (case Unserialize e (vchMsg this) of
              None \<Rightarrow> Inl UnserializeFailure
            | Some (v, h) \<Rightarrow> Inr (True, this\<lparr>nVersion := v, hashCheckpoint := h\<rparr>)))"

definition ProcessSyncCheckpoint ::
  "env \<Rightarrow> CSyncCheckpoint \<Rightarrow> cpstate \<Rightarrow> error + (bool \<times> cpstate)" where
  "ProcessSyncCheckpoint e this s =
     (case CheckSignature e this of
        Inl err \<Rightarrow> Inl err
      | Inr (False, this1) \<Rightarrow> Inr (False, s)
      | Inr (True, this1) \<Rightarrow>
          if mapBlockIndex e (hashCheckpoint this1) = None
          then Inr (False, s\<lparr>hashPendingCheckpoint := hashCheckpoint this1,
                             checkpointMessagePending := this1\<rparr>)
          else (case ValidateSyncCheckpoint e (hashCheckpoint this1) s of
                  (False, s1) \<Rightarrow> Inr (False, s1)
                | (True, s1) \<Rightarrow>
                    (case WriteSyncCheckpoint e (hashCheckpoint this1) s1 of
                       (False, s2) \<Rightarrow> Inr (False, s2)
                     | (True, s2) \<Rightarrow>
                         Inr (True, s2\<lparr>checkpointMessage := this1,
                                       hashPendingCheckpoint := 0,
                                       checkpointMessagePending := SetNull\<rparr>))))"

section \<open>Notions used to state the properties\<close>

text \<open>
  The ancestors of an entry, the entry first: the entries that following
  \<^verbatim>\<open>pprev\<close> visits, down to the one without a parent.
\<close>

fun ancestors :: "CBlockIndex \<Rightarrow> CBlockIndex list" where
  "ancestors (CBlockIndex hb nh pp) =
     CBlockIndex hb nh pp # (case pp of None \<Rightarrow> [] | Some p \<Rightarrow> ancestors p)"

text \<open>
  The ancestor of \<open>pindex\<close> at height \<open>h\<close>: the first entry on the way down whose height
  is not above \<open>h\<close>.
\<close>

definition ancestor_at :: "int \<Rightarrow> CBlockIndex \<Rightarrow> CBlockIndex option" where
  "ancestor_at h pindex = find (\<lambda>a. nHeight a \<le> h) (ancestors pindex)"

text \<open>
  The heights of a block index as the node builds it: the entry without a parent (the
  genesis block) has height 0, and every other entry is one above its parent.
\<close>

fun wf_heights :: "CBlockIndex \<Rightarrow> bool" where
  "wf_heights (CBlockIndex hb nh pp) =
     (case pp of None \<Rightarrow> nh = 0 | Some p \<Rightarrow> nh = nHeight p + 1 \<and> wf_heights p)"

text \<open>
  Write-then-commit between the state before and after an operation: the active
  checkpoint is the one before, or it is a hash whose database write succeeds and that
  the database holds.
\<close>

definition write_then_commit :: "env \<Rightarrow> cpstate \<Rightarrow> cpstate \<Rightarrow> bool" where
  "write_then_commit e s s' =
     (hashSyncCheckpoint s' = hashSyncCheckpoint s
      \<or> (txdbWrite e (hashSyncCheckpoint s')
         \<and> txdbSyncCheckpoint s' = Some (hashSyncCheckpoint s')))"

text \<open>
  The ancestor walk as a condition on the block index alone: the active checkpoint is in
  the index, strictly below \<open>pindex\<close>, and the ancestor of \<open>pindex\<close> at its height has the
  checkpoint's hash. The active chain does not occur in it.
\<close>

definition descends_from_checkpoint :: "env \<Rightarrow> cpstate \<Rightarrow> CBlockIndex \<Rightarrow> bool" where
  "descends_from_checkpoint e s pindex =
     (case mapBlockIndex e (hashSyncCheckpoint s) of
        None \<Rightarrow> False
      | Some pindexSync \<Rightarrow>
          nHeight pindexSync < nHeight pindex
          \<and> (case ancestor_at (nHeight pindexSync) pindex of
                None \<Rightarrow> False
              | Some a \<Rightarrow> GetBlockHash a = hashSyncCheckpoint s))"

subsection \<open>A small block index\<close>

text \<open>
  Genesis \<open>blkG\<close> (hash 1), its child \<open>blkA\<close> (hash 2), and two children of \<open>blkA\<close>:
  \<open>blkB\<close> (hash 3), the tip of the active chain, and \<open>blkC\<close> (hash 4), on a side branch.
  Signatures count as valid when they are the single byte 7, and a payload of the single
  byte 3, 4 or 5 unserializes to version 1 and that hash.
\<close>

definition blkG :: CBlockIndex where
  "blkG = CBlockIndex 1 0 None"

definition blkA :: CBlockIndex where
  "blkA = CBlockIndex 2 1 (Some blkG)"

definition blkB :: CBlockIndex where
  "blkB = CBlockIndex 3 2 (Some blkA)"

definition blkC :: CBlockIndex where
  "blkC = CBlockIndex 4 2 (Some blkA)"

definition ex_chain :: CChain where
  "ex_chain = \<lparr>Tip = Some blkB, Contains = (\<lambda>p. p = blkG \<or> p = blkA \<or> p = blkB)\<rparr>"

definition ex_env :: env where
  "ex_env = \<lparr>mapBlockIndex = [1 \<mapsto> blkG, 2 \<mapsto> blkA, 3 \<mapsto> blkB, 4 \<mapsto> blkC],
             chainActive = ex_chain,
             hashGenesisBlock = 1,
             checkpointdepth = 1,
             GetLatestHardenedCheckpoint = 2,
             Verify = (\<lambda>msg sig. sig = [7]),
             Unserialize = (\<lambda>msg. if msg = [3] then Some (1, 3)
                                    else if msg = [4] then Some (1, 4)
                                    else if msg = [5] then Some (1, 5) else None),
             txdbWrite = (\<lambda>h. True)\<rparr>"

text \<open>The state in which \<open>active\<close> is the checkpoint and nothing is pending.\<close>

definition ex_state :: "uint256 \<Rightarrow> cpstate" where
  "ex_state active =
     \<lparr>hashSyncCheckpoint = active, hashPendingCheckpoint = 0,
      checkpointMessage = SetNull, checkpointMessagePending = SetNull,
      hashInvalidCheckpoint = 0, txdbSyncCheckpoint = Some active\<rparr>"

text \<open>The same collaborators with a database that refuses every write.\<close>

definition ex_env_nowrite :: env where
  "ex_env_nowrite = ex_env\<lparr>txdbWrite := (\<lambda>h. False)\<rparr>"

text \<open>
  A message as it comes off the wire: payload and signature, the unsigned part still
  null.
\<close>

definition ex_msg :: "byte list \<Rightarrow> byte list \<Rightarrow> CSyncCheckpoint" where
  "ex_msg payload sig = SetNull\<lparr>vchMsg := payload, vchSig := sig\<rparr>"

text \<open>The block index before the side-branch block \<open>blkC\<close> has arrived.\<close>

definition ex_env_early :: env where
  "ex_env_early = ex_env\<lparr>mapBlockIndex := [1 \<mapsto> blkG, 2 \<mapsto> blkA, 3 \<mapsto> blkB]\<rparr>"

text \<open>
  The state with \<open>blkA\<close> as checkpoint and the signed message for hash 4 pending, and the
  state in which that message has been accepted.
\<close>

definition ex_pending :: cpstate where
  "ex_pending = (ex_state 2)\<lparr>hashPendingCheckpoint := 4,
       checkpointMessagePending := (ex_msg [4] [7])\<lparr>nVersion := 1, hashCheckpoint := 4\<rparr>\<rparr>"

definition ex_accepted :: cpstate where
  "ex_accepted = (ex_state 4)\<lparr>checkpointMessage :=
       (ex_msg [4] [7])\<lparr>nVersion := 1, hashCheckpoint := 4\<rparr>\<rparr>"


section \<open>Properties\<close>

subsection \<open>Auxiliary facts\<close>

lemmas ex_defs = blkG_def blkA_def blkB_def blkC_def ex_chain_def ex_env_def ex_state_def

lemma trace_back_ancestor_at: "trace_back h b = ancestor_at h b"
  unfolding ancestor_at_def
  by (induction h b rule: trace_back.induct) (auto split: option.splits)


lemma trace_back_exact:
  "wf_heights b \<Longrightarrow> 0 \<le> h \<Longrightarrow> h \<le> nHeight b
   \<Longrightarrow> \<exists>a. trace_back h b = Some a \<and> nHeight a = h"
  by (induction h b rule: trace_back.induct) (auto split: option.splits)


lemma Validate_active_unchanged:
  "hashSyncCheckpoint (snd (ValidateSyncCheckpoint e h s)) = hashSyncCheckpoint s"
  by (simp add: ValidateSyncCheckpoint_def split: option.splits)

lemma Validate_True_state: "ValidateSyncCheckpoint e h s = (True, s1) \<Longrightarrow> s1 = s"
  by (auto simp: ValidateSyncCheckpoint_def split: option.splits if_splits)

lemma int_add_one: "INT_MIN \<le> x \<Longrightarrow> x < INT_MAX \<Longrightarrow> int_add x 1 = x + 1"
  by (simp add: int_add_def wrap32_def INT_MIN_def INT_MAX_def)

lemma Validate_active_eq:
  "ValidateSyncCheckpoint e h s = (r, s1) \<Longrightarrow> hashSyncCheckpoint s1 = hashSyncCheckpoint s"
  using Validate_active_unchanged [of e h s] by simp

lemma Process_wtc:
  "case ProcessSyncCheckpoint e m s of Inl err \<Rightarrow> True | Inr (r, s') \<Rightarrow> write_then_commit e s s'"
  by (auto simp: ProcessSyncCheckpoint_def WriteSyncCheckpoint_def write_then_commit_def
        split: sum.splits prod.splits bool.splits option.splits if_splits
        dest: Validate_active_eq)

lemma Accept_wtc: "write_then_commit e s (snd (AcceptPendingSyncCheckpoint e s))"
  by (auto simp: AcceptPendingSyncCheckpoint_def WriteSyncCheckpoint_def write_then_commit_def Let_def
        split: prod.splits bool.splits option.splits if_splits
        dest: Validate_active_eq)

lemma Check_wtc: "write_then_commit e s (snd (CheckSyncCheckpoint e hb prev s))"
  by (auto simp: CheckSyncCheckpoint_def WriteSyncCheckpoint_def write_then_commit_def Let_def
        split: option.splits)

lemma Reset_wtc: "write_then_commit e s (snd (ResetSyncCheckpoint e s))"
  by (auto simp: ResetSyncCheckpoint_def WriteSyncCheckpoint_def write_then_commit_def Let_def
        split: option.splits)






lemmas fun_defs = ValidateSyncCheckpoint_def WriteSyncCheckpoint_def
  AcceptPendingSyncCheckpoint_def CheckSyncCheckpoint_def ResetSyncCheckpoint_def
  CheckSignature_def ProcessSyncCheckpoint_def GetBlockHash_def SetNull_def

lemma Validate_descends:
  "mapBlockIndex e h = Some pindex \<Longrightarrow>
   ValidateSyncCheckpoint e h s = (True, s1) \<longleftrightarrow> descends_from_checkpoint e s pindex \<and> s1 = s"
  by (auto simp: ValidateSyncCheckpoint_def descends_from_checkpoint_def trace_back_ancestor_at
        split: option.splits)

lemma Validate_fst_descends:
  "mapBlockIndex e h = Some pindex \<Longrightarrow>
   fst (ValidateSyncCheckpoint e h s) = descends_from_checkpoint e s pindex"
  by (auto simp: ValidateSyncCheckpoint_def descends_from_checkpoint_def trace_back_ancestor_at
        split: option.splits)

lemma ProcessSyncCheckpoint_twice_on_chain:
  assumes "ProcessSyncCheckpoint e m s = Inr (True, s')"
    and "mapBlockIndex e (hashSyncCheckpoint s') = Some pindex"
    and "Contains (chainActive e) pindex"
  shows "ProcessSyncCheckpoint e m s' = Inr (False, s')"
  using assms
  by (auto simp: ProcessSyncCheckpoint_def CheckSignature_def WriteSyncCheckpoint_def
        ValidateSyncCheckpoint_def
        split: option.splits if_splits prod.splits bool.splits sum.splits)

lemma Validate_True_any_chain:
  "(ValidateSyncCheckpoint (e\<lparr>chainActive := c\<rparr>) h s = (True, s1))
   = (ValidateSyncCheckpoint e h s = (True, s1))"
  by (auto simp: ValidateSyncCheckpoint_def split: option.splits if_splits)

lemma Process_accepts_iff:
  "ProcessSyncCheckpoint e m s = Inr (True, s') \<longleftrightarrow>
     (\<exists>v h. Verify e (vchMsg m) (vchSig m) \<and> Unserialize e (vchMsg m) = Some (v, h)
        \<and> mapBlockIndex e h \<noteq> None \<and> ValidateSyncCheckpoint e h s = (True, s)
        \<and> txdbWrite e h
        \<and> s' = s\<lparr>txdbSyncCheckpoint := Some h, hashSyncCheckpoint := h,
                     checkpointMessage := m\<lparr>nVersion := v, hashCheckpoint := h\<rparr>,
                     hashPendingCheckpoint := 0,
                     checkpointMessagePending := SetNull\<rparr>)"
  by (auto simp: ProcessSyncCheckpoint_def CheckSignature_def WriteSyncCheckpoint_def
        split: option.splits if_splits prod.splits bool.splits
        dest: Validate_True_state)

lemma Process_accepts_any_chain:
  "(ProcessSyncCheckpoint (e\<lparr>chainActive := c\<rparr>) m s = Inr (True, s'))
   = (ProcessSyncCheckpoint e m s = Inr (True, s'))"
  unfolding Process_accepts_iff by (simp add: Validate_True_any_chain)

subsection \<open>ValidateSyncCheckpoint on a candidate above the active checkpoint\<close>

text \<open>
  Claim C1. Let the active checkpoint and the candidate \<open>h\<close> both be in the block index,
  the candidate strictly higher. Then \<open>ValidateSyncCheckpoint\<close> is decided by the
  ancestor of the candidate at the height of the active checkpoint: if the parent links
  end before that height it returns false and changes nothing; if the ancestor is the
  active checkpoint it returns true and changes nothing; otherwise it returns false and
  records \<open>h\<close> in \<open>hashInvalidCheckpoint\<close>. The active checkpoint is the same afterwards
  in every case. In a block index with consecutive heights the ancestor exists and its
  height is exactly the height of the active checkpoint.
\<close>

theorem ValidateSyncCheckpoint_newer:
  assumes "mapBlockIndex e (hashSyncCheckpoint s) = Some pindexSync"
    and "mapBlockIndex e h = Some pindexRecv"
    and "nHeight pindexSync < nHeight pindexRecv"
  shows "ValidateSyncCheckpoint e h s =
           (case ancestor_at (nHeight pindexSync) pindexRecv of
              None \<Rightarrow> (False, s)
            | Some a \<Rightarrow>
                if GetBlockHash a = hashSyncCheckpoint s then (True, s)
                else (False, s\<lparr>hashInvalidCheckpoint := h\<rparr>))
         \<and> hashSyncCheckpoint (snd (ValidateSyncCheckpoint e h s)) = hashSyncCheckpoint s
         \<and> (wf_heights pindexRecv \<and> 0 \<le> nHeight pindexSync \<longrightarrow>
              (\<exists>a. ancestor_at (nHeight pindexSync) pindexRecv = Some a
                    \<and> nHeight a = nHeight pindexSync))"
proof -
  have eq: "ValidateSyncCheckpoint e h s =
           (case ancestor_at (nHeight pindexSync) pindexRecv of
              None \<Rightarrow> (False, s)
            | Some a \<Rightarrow>
                if GetBlockHash a = hashSyncCheckpoint s then (True, s)
                else (False, s\<lparr>hashInvalidCheckpoint := h\<rparr>))"
    using assms
    by (simp add: ValidateSyncCheckpoint_def trace_back_ancestor_at split: option.splits)
  have exact: "wf_heights pindexRecv \<and> 0 \<le> nHeight pindexSync \<longrightarrow>
              (\<exists>a. ancestor_at (nHeight pindexSync) pindexRecv = Some a
                    \<and> nHeight a = nHeight pindexSync)"
    using assms(3) trace_back_exact [of pindexRecv "nHeight pindexSync"]
    by (simp add: trace_back_ancestor_at)
  show ?thesis
    using eq exact Validate_active_unchanged [of e h s] by blast
qed

theorem ValidateSyncCheckpoint_newer_witness:
  "mapBlockIndex ex_env (hashSyncCheckpoint (ex_state 2)) = Some blkA
   \<and> mapBlockIndex ex_env 4 = Some blkC
   \<and> nHeight blkA < nHeight blkC
   \<and> wf_heights blkC
   \<and> ancestor_at (nHeight blkA) blkC = Some blkA
   \<and> ValidateSyncCheckpoint ex_env 4 (ex_state 2) = (True, ex_state 2)"
  using ValidateSyncCheckpoint_newer [of ex_env "ex_state 2" blkA 4 blkC]
  by (simp add: ex_defs ancestor_at_def GetBlockHash_def)

subsection \<open>ValidateSyncCheckpoint on a candidate not above the active checkpoint\<close>

text \<open>
  Claim C2. Let the active checkpoint and the candidate \<open>h\<close> both be in the block index,
  the candidate's height at most the active checkpoint's. If the candidate's entry is on
  the active chain, \<open>ValidateSyncCheckpoint\<close> returns false and leaves the whole state as
  it was; if it is not, the function returns false and the state differs only in
  \<open>hashInvalidCheckpoint\<close>, which is now \<open>h\<close>.
\<close>

theorem ValidateSyncCheckpoint_older:
  assumes "mapBlockIndex e (hashSyncCheckpoint s) = Some pindexSync"
    and "mapBlockIndex e h = Some pindexRecv"
    and "nHeight pindexRecv \<le> nHeight pindexSync"
  shows "ValidateSyncCheckpoint e h s =
           (if Contains (chainActive e) pindexRecv then (False, s)
            else (False, s\<lparr>hashInvalidCheckpoint := h\<rparr>))"
  using assms by (simp add: ValidateSyncCheckpoint_def)

theorem ValidateSyncCheckpoint_older_witness:
  "mapBlockIndex ex_env (hashSyncCheckpoint (ex_state 3)) = Some blkB
   \<and> mapBlockIndex ex_env 2 = Some blkA \<and> nHeight blkA \<le> nHeight blkB
   \<and> Contains (chainActive ex_env) blkA
   \<and> ValidateSyncCheckpoint ex_env 2 (ex_state 3) = (False, ex_state 3)
   \<and> mapBlockIndex ex_env 4 = Some blkC \<and> nHeight blkC \<le> nHeight blkB
   \<and> \<not> Contains (chainActive ex_env) blkC
   \<and> ValidateSyncCheckpoint ex_env 4 (ex_state 3)
       = (False, (ex_state 3)\<lparr>hashInvalidCheckpoint := 4\<rparr>)"
  using ValidateSyncCheckpoint_older [of ex_env "ex_state 3" blkB 2 blkA]
    ValidateSyncCheckpoint_older [of ex_env "ex_state 3" blkB 4 blkC]
  by (simp add: ex_defs)

subsection \<open>CheckSyncCheckpoint\<close>

text \<open>
  Claim C3, as stated, at the reset branch: with a database that refuses the write, an
  uninitialised checkpoint (all-zero hash) is still all-zero after \<open>CheckSyncCheckpoint\<close>
  has returned true, and not the genesis hash.
\<close>

theorem CheckSyncCheckpoint_reset_counterexample:
  "hashSyncCheckpoint (ex_state 0) = 0
   \<and> CheckSyncCheckpoint ex_env_nowrite 3 blkA (ex_state 0) = (True, ex_state 0)
   \<and> hashSyncCheckpoint (ex_state 0) \<noteq> hashGenesisBlock ex_env_nowrite"
  by (simp add: CheckSyncCheckpoint_def WriteSyncCheckpoint_def ex_env_nowrite_def ex_defs)

text \<open>
  Claim C3, amended. For a parent entry whose height plus one is an \<^verbatim>\<open>int\<close>:
  if the active checkpoint is the all-zero hash or is not in the block index,
  \<open>CheckSyncCheckpoint\<close> returns true, and the active checkpoint (with the database
  key) becomes the genesis hash when the database write succeeds and the state stays as
  it was when the write fails. Otherwise the state is unchanged and the result is: for a
  new height above the checkpoint's, whether the ancestor of the parent at the
  checkpoint's height exists and is on the active chain; for a new height equal to it,
  whether the block hash is the checkpoint hash; for a new height below it, whether the
  block hash is in the block index.
\<close>

theorem CheckSyncCheckpoint_cases:
  assumes "INT_MIN \<le> nHeight pindexPrev" and "nHeight pindexPrev < INT_MAX"
  shows "(hashSyncCheckpoint s = 0 \<or> mapBlockIndex e (hashSyncCheckpoint s) = None \<longrightarrow>
            CheckSyncCheckpoint e hashBlock pindexPrev s =
              (True, if txdbWrite e (hashGenesisBlock e)
                     then s\<lparr>txdbSyncCheckpoint := Some (hashGenesisBlock e),
                            hashSyncCheckpoint := hashGenesisBlock e\<rparr>
                     else s))
       \<and> (hashSyncCheckpoint s \<noteq> 0 \<and> mapBlockIndex e (hashSyncCheckpoint s) = Some pindexSync \<longrightarrow>
            snd (CheckSyncCheckpoint e hashBlock pindexPrev s) = s
            \<and> (nHeight pindexSync < nHeight pindexPrev + 1 \<longrightarrow>
                 fst (CheckSyncCheckpoint e hashBlock pindexPrev s) =
                   (\<exists>a. ancestor_at (nHeight pindexSync) pindexPrev = Some a
                         \<and> Contains (chainActive e) a))
            \<and> (nHeight pindexPrev + 1 = nHeight pindexSync \<longrightarrow>
                 fst (CheckSyncCheckpoint e hashBlock pindexPrev s) =
                   (hashBlock = hashSyncCheckpoint s))
            \<and> (nHeight pindexPrev + 1 < nHeight pindexSync \<longrightarrow>
                 fst (CheckSyncCheckpoint e hashBlock pindexPrev s) =
                   (mapBlockIndex e hashBlock \<noteq> None)))"
proof -
  note h = int_add_one [OF assms]
  have reset: "hashSyncCheckpoint s = 0 \<or> mapBlockIndex e (hashSyncCheckpoint s) = None \<longrightarrow>
            CheckSyncCheckpoint e hashBlock pindexPrev s =
              (True, if txdbWrite e (hashGenesisBlock e)
                     then s\<lparr>txdbSyncCheckpoint := Some (hashGenesisBlock e),
                            hashSyncCheckpoint := hashGenesisBlock e\<rparr>
                     else s)"
    by (auto simp: CheckSyncCheckpoint_def WriteSyncCheckpoint_def)
  have checked: "snd (CheckSyncCheckpoint e hashBlock pindexPrev s) = s
            \<and> (nHeight pindexSync < nHeight pindexPrev + 1 \<longrightarrow>
                 fst (CheckSyncCheckpoint e hashBlock pindexPrev s) =
                   (\<exists>a. ancestor_at (nHeight pindexSync) pindexPrev = Some a
                         \<and> Contains (chainActive e) a))
            \<and> (nHeight pindexPrev + 1 = nHeight pindexSync \<longrightarrow>
                 fst (CheckSyncCheckpoint e hashBlock pindexPrev s) =
                   (hashBlock = hashSyncCheckpoint s))
            \<and> (nHeight pindexPrev + 1 < nHeight pindexSync \<longrightarrow>
                 fst (CheckSyncCheckpoint e hashBlock pindexPrev s) =
                   (mapBlockIndex e hashBlock \<noteq> None))"
    if "hashSyncCheckpoint s \<noteq> 0" and "mapBlockIndex e (hashSyncCheckpoint s) = Some pindexSync"
    using that
    by (auto simp: CheckSyncCheckpoint_def h Let_def trace_back_ancestor_at
             split: option.splits)
  show ?thesis using reset checked by blast
qed

theorem CheckSyncCheckpoint_cases_witness:
  "INT_MIN \<le> nHeight blkC \<and> nHeight blkC < INT_MAX
   \<and> INT_MIN \<le> nHeight blkA \<and> nHeight blkA < INT_MAX
   \<and> INT_MIN \<le> nHeight blkG \<and> nHeight blkG < INT_MAX
   \<and> CheckSyncCheckpoint ex_env 5 blkC (ex_state 0)
       = (True, (ex_state 0)\<lparr>txdbSyncCheckpoint := Some 1, hashSyncCheckpoint := 1\<rparr>)
   \<and> mapBlockIndex ex_env (hashSyncCheckpoint (ex_state 2)) = Some blkA
   \<and> ancestor_at (nHeight blkA) blkC = Some blkA \<and> Contains (chainActive ex_env) blkA
   \<and> CheckSyncCheckpoint ex_env 5 blkC (ex_state 2) = (True, ex_state 2)
   \<and> mapBlockIndex ex_env (hashSyncCheckpoint (ex_state 3)) = Some blkB
   \<and> ancestor_at (nHeight blkB) blkC = Some blkC \<and> \<not> Contains (chainActive ex_env) blkC
   \<and> CheckSyncCheckpoint ex_env 5 blkC (ex_state 3) = (False, ex_state 3)
   \<and> CheckSyncCheckpoint ex_env 4 blkA (ex_state 3) = (False, ex_state 3)
   \<and> CheckSyncCheckpoint ex_env 3 blkA (ex_state 3) = (True, ex_state 3)
   \<and> CheckSyncCheckpoint ex_env 2 blkG (ex_state 3) = (True, ex_state 3)
   \<and> CheckSyncCheckpoint ex_env 5 blkG (ex_state 3) = (False, ex_state 3)"
  using CheckSyncCheckpoint_cases [of blkC "ex_state 0" ex_env 5 blkA]
    CheckSyncCheckpoint_cases [of blkC "ex_state 2" ex_env 5 blkA]
    CheckSyncCheckpoint_cases [of blkC "ex_state 3" ex_env 5 blkB]
    CheckSyncCheckpoint_cases [of blkA "ex_state 3" ex_env 4 blkB]
    CheckSyncCheckpoint_cases [of blkA "ex_state 3" ex_env 3 blkB]
    CheckSyncCheckpoint_cases [of blkG "ex_state 3" ex_env 2 blkB]
    CheckSyncCheckpoint_cases [of blkG "ex_state 3" ex_env 5 blkB]
  by (simp add: ex_defs ancestor_at_def INT_MIN_def INT_MAX_def prod_eq_iff)

subsection \<open>A message whose signature does not verify\<close>

text \<open>
  Claim C4. If the signature of a message does not verify under the master public key,
  \<open>ProcessSyncCheckpoint\<close> returns false and the state afterwards is the state before:
  active checkpoint, pending hash and message, invalid-checkpoint marker and all the
  rest.
\<close>

theorem ProcessSyncCheckpoint_bad_signature:
  assumes "\<not> Verify e (vchMsg m) (vchSig m)"
  shows "ProcessSyncCheckpoint e m s = Inr (False, s)"
  using assms by (simp add: ProcessSyncCheckpoint_def CheckSignature_def)

theorem ProcessSyncCheckpoint_bad_signature_witness:
  "\<not> Verify ex_env (vchMsg (ex_msg [4] [8])) (vchSig (ex_msg [4] [8]))
   \<and> ProcessSyncCheckpoint ex_env (ex_msg [4] [8]) (ex_state 2) = Inr (False, ex_state 2)"
  using ProcessSyncCheckpoint_bad_signature [of ex_env "ex_msg [4] [8]" "ex_state 2"]
  by (simp add: ex_defs ex_msg_def)

subsection \<open>Write, then commit\<close>

text \<open>
  Claim C5. \<open>WriteSyncCheckpoint\<close> assigns the active checkpoint in the branch where the
  database write has succeeded and nowhere else: when the write of \<open>h\<close> fails it returns
  false and the state is unchanged. For each operation that moves the active checkpoint
  (\<open>ProcessSyncCheckpoint\<close>, \<open>AcceptPendingSyncCheckpoint\<close>, \<open>CheckSyncCheckpoint\<close>,
  \<open>ResetSyncCheckpoint\<close>) the active checkpoint afterwards is the one before, unless it
  is a hash whose database write succeeds and that the database now holds.
\<close>

theorem write_then_commit_all:
  "WriteSyncCheckpoint e h s =
     (if txdbWrite e h
      then (True, s\<lparr>txdbSyncCheckpoint := Some h, hashSyncCheckpoint := h\<rparr>)
      else (False, s))
   \<and> (\<not> txdbWrite e h \<longrightarrow>
        \<not> fst (WriteSyncCheckpoint e h s)
        \<and> hashSyncCheckpoint (snd (WriteSyncCheckpoint e h s)) = hashSyncCheckpoint s)
   \<and> (case ProcessSyncCheckpoint e m s of
         Inl err \<Rightarrow> True
       | Inr (r, s') \<Rightarrow> write_then_commit e s s')
   \<and> write_then_commit e s (snd (AcceptPendingSyncCheckpoint e s))
   \<and> write_then_commit e s (snd (CheckSyncCheckpoint e hashBlock pindexPrev s))
   \<and> write_then_commit e s (snd (ResetSyncCheckpoint e s))"
proof -
  have w: "WriteSyncCheckpoint e h s =
     (if txdbWrite e h
      then (True, s\<lparr>txdbSyncCheckpoint := Some h, hashSyncCheckpoint := h\<rparr>)
      else (False, s))"
    by (simp add: WriteSyncCheckpoint_def)
  have f: "\<not> txdbWrite e h \<longrightarrow>
        \<not> fst (WriteSyncCheckpoint e h s)
        \<and> hashSyncCheckpoint (snd (WriteSyncCheckpoint e h s)) = hashSyncCheckpoint s"
    by (simp add: WriteSyncCheckpoint_def)
  show ?thesis
    using w f Process_wtc Accept_wtc Check_wtc Reset_wtc by blast
qed

theorem write_then_commit_all_witness:
  "\<not> txdbWrite ex_env_nowrite 4
   \<and> WriteSyncCheckpoint ex_env_nowrite 4 (ex_state 2) = (False, ex_state 2)
   \<and> ProcessSyncCheckpoint ex_env_nowrite (ex_msg [4] [7]) (ex_state 2) = Inr (False, ex_state 2)
   \<and> hashSyncCheckpoint (snd (AcceptPendingSyncCheckpoint ex_env_nowrite
        ((ex_state 2)\<lparr>hashPendingCheckpoint := 3\<rparr>))) = 2
   \<and> hashSyncCheckpoint (snd (CheckSyncCheckpoint ex_env_nowrite 3 blkA (ex_state 0))) = 0
   \<and> hashSyncCheckpoint (snd (ResetSyncCheckpoint ex_env_nowrite (ex_state 1))) = 1
   \<and> WriteSyncCheckpoint ex_env 4 (ex_state 2) = (True, ex_state 4)"
  using write_then_commit_all [where e = ex_env_nowrite and h = 4 and s = "ex_state 2"
      and m = "ex_msg [4] [7]" and hashBlock = 3 and pindexPrev = blkA]
    write_then_commit_all [where e = ex_env_nowrite and h = 4
      and s = "(ex_state 2)\<lparr>hashPendingCheckpoint := 3\<rparr>"
      and m = "ex_msg [4] [7]" and hashBlock = 3 and pindexPrev = blkA]
    write_then_commit_all [where e = ex_env_nowrite and h = 4 and s = "ex_state 0"
      and m = "ex_msg [4] [7]" and hashBlock = 3 and pindexPrev = blkA]
    write_then_commit_all [where e = ex_env_nowrite and h = 4 and s = "ex_state 1"
      and m = "ex_msg [4] [7]" and hashBlock = 3 and pindexPrev = blkA]
    write_then_commit_all [where e = ex_env and h = 4 and s = "ex_state 2"
      and m = "ex_msg [4] [7]" and hashBlock = 3 and pindexPrev = blkA]
  by (simp add: write_then_commit_def ex_env_nowrite_def ex_defs ex_msg_def
        WriteSyncCheckpoint_def ProcessSyncCheckpoint_def CheckSignature_def
        ValidateSyncCheckpoint_def AcceptPendingSyncCheckpoint_def CheckSyncCheckpoint_def
        ResetSyncCheckpoint_def GetBlockHash_def SetNull_def)

subsection \<open>The pending slot\<close>

text \<open>
  Claim C6, as stated, in the small block index. The signed message for hash 4 arrives
  before \<open>blkC\<close>: it is stored as pending and the checkpoint stays \<open>blkA\<close>. Once \<open>blkC\<close>
  is in the index \<open>ValidateSyncCheckpoint\<close> succeeds for it (it is a child of \<open>blkA\<close>),
  yet \<open>AcceptPendingSyncCheckpoint\<close> returns false and changes nothing, because \<open>blkC\<close> is
  not on the active chain: the pending hash does not become the checkpoint and the
  pending slot is not cleared.
\<close>

theorem AcceptPendingSyncCheckpoint_off_chain_counterexample:
  "Verify ex_env_early (vchMsg (ex_msg [4] [7])) (vchSig (ex_msg [4] [7]))
   \<and> mapBlockIndex ex_env_early 4 = None
   \<and> ProcessSyncCheckpoint ex_env_early (ex_msg [4] [7]) (ex_state 2) = Inr (False, ex_pending)
   \<and> mapBlockIndex ex_env 4 = Some blkC
   \<and> ValidateSyncCheckpoint ex_env 4 ex_pending = (True, ex_pending)
   \<and> AcceptPendingSyncCheckpoint ex_env ex_pending = (False, ex_pending)
   \<and> hashSyncCheckpoint ex_pending = 2
   \<and> hashPendingCheckpoint ex_pending = 4"
  by (simp add: fun_defs ex_env_early_def ex_pending_def ex_msg_def ex_defs)

text \<open>
  Claim C6, amended. A message whose signature verifies and whose payload names a hash
  \<open>h\<close> absent from the block index is stored, with \<open>h\<close>, in the pending slot;
  \<open>ProcessSyncCheckpoint\<close> returns false and nothing else changes, the active checkpoint
  included. Later, in any state whose pending hash is not the all-zero hash and is in
  the block index, \<open>AcceptPendingSyncCheckpoint\<close> runs \<open>ValidateSyncCheckpoint\<close> on it.
  When that fails, the pending slot is cleared and the active checkpoint is unchanged.
  When it succeeds, the pending hash becomes the active checkpoint, the pending message
  the checkpoint message, and the pending slot is cleared, provided the entry is on the
  active chain and the database write succeeds; otherwise the function returns false
  and the state, pending slot included, is unchanged.
\<close>

theorem pending_then_accept:
  "(Verify e (vchMsg m) (vchSig m) \<and> Unserialize e (vchMsg m) = Some (v, h)
      \<and> mapBlockIndex e h = None \<longrightarrow>
      ProcessSyncCheckpoint e m s =
        Inr (False, s\<lparr>hashPendingCheckpoint := h,
                       checkpointMessagePending := m\<lparr>nVersion := v, hashCheckpoint := h\<rparr>\<rparr>))
   \<and> (hashPendingCheckpoint s1 \<noteq> 0
      \<and> mapBlockIndex e' (hashPendingCheckpoint s1) = Some pindex \<longrightarrow>
      (case ValidateSyncCheckpoint e' (hashPendingCheckpoint s1) s1 of
         (False, s2) \<Rightarrow>
           AcceptPendingSyncCheckpoint e' s1 =
             (False, s2\<lparr>hashPendingCheckpoint := 0, checkpointMessagePending := SetNull\<rparr>)
           \<and> hashSyncCheckpoint s2 = hashSyncCheckpoint s1
       | (True, s2) \<Rightarrow>
           AcceptPendingSyncCheckpoint e' s1 =
             (if Contains (chainActive e') pindex \<and> txdbWrite e' (hashPendingCheckpoint s1)
              then (True, s1\<lparr>txdbSyncCheckpoint := Some (hashPendingCheckpoint s1),
                             hashSyncCheckpoint := hashPendingCheckpoint s1,
                             hashPendingCheckpoint := 0,
                             checkpointMessage := checkpointMessagePending s1,
                             checkpointMessagePending := SetNull\<rparr>)
              else (False, s1))))"
proof -
  have store: "Verify e (vchMsg m) (vchSig m) \<and> Unserialize e (vchMsg m) = Some (v, h)
      \<and> mapBlockIndex e h = None \<longrightarrow>
      ProcessSyncCheckpoint e m s =
        Inr (False, s\<lparr>hashPendingCheckpoint := h,
                       checkpointMessagePending := m\<lparr>nVersion := v, hashCheckpoint := h\<rparr>\<rparr>)"
    by (simp add: ProcessSyncCheckpoint_def CheckSignature_def)
  have accept: "hashPendingCheckpoint s1 \<noteq> 0
      \<and> mapBlockIndex e' (hashPendingCheckpoint s1) = Some pindex \<longrightarrow>
      (case ValidateSyncCheckpoint e' (hashPendingCheckpoint s1) s1 of
         (False, s2) \<Rightarrow>
           AcceptPendingSyncCheckpoint e' s1 =
             (False, s2\<lparr>hashPendingCheckpoint := 0, checkpointMessagePending := SetNull\<rparr>)
           \<and> hashSyncCheckpoint s2 = hashSyncCheckpoint s1
       | (True, s2) \<Rightarrow>
           AcceptPendingSyncCheckpoint e' s1 =
             (if Contains (chainActive e') pindex \<and> txdbWrite e' (hashPendingCheckpoint s1)
              then (True, s1\<lparr>txdbSyncCheckpoint := Some (hashPendingCheckpoint s1),
                             hashSyncCheckpoint := hashPendingCheckpoint s1,
                             hashPendingCheckpoint := 0,
                             checkpointMessage := checkpointMessagePending s1,
                             checkpointMessagePending := SetNull\<rparr>)
              else (False, s1)))"
  proof (intro impI, elim conjE)
    assume pend: "hashPendingCheckpoint s1 \<noteq> 0"
      and idx: "mapBlockIndex e' (hashPendingCheckpoint s1) = Some pindex"
    obtain ok s2 where Pair: "ValidateSyncCheckpoint e' (hashPendingCheckpoint s1) s1 = (ok, s2)"
      by (cases "ValidateSyncCheckpoint e' (hashPendingCheckpoint s1) s1")
    show "(case ValidateSyncCheckpoint e' (hashPendingCheckpoint s1) s1 of
         (False, s2) \<Rightarrow>
           AcceptPendingSyncCheckpoint e' s1 =
             (False, s2\<lparr>hashPendingCheckpoint := 0, checkpointMessagePending := SetNull\<rparr>)
           \<and> hashSyncCheckpoint s2 = hashSyncCheckpoint s1
       | (True, s2) \<Rightarrow>
           AcceptPendingSyncCheckpoint e' s1 =
             (if Contains (chainActive e') pindex \<and> txdbWrite e' (hashPendingCheckpoint s1)
              then (True, s1\<lparr>txdbSyncCheckpoint := Some (hashPendingCheckpoint s1),
                             hashSyncCheckpoint := hashPendingCheckpoint s1,
                             hashPendingCheckpoint := 0,
                             checkpointMessage := checkpointMessagePending s1,
                             checkpointMessagePending := SetNull\<rparr>)
              else (False, s1)))"
    proof (cases ok)
      case True
      with Pair have s2: "s2 = s1" by (simp add: Validate_True_state)
      show ?thesis
        using Pair True s2 pend idx
        by (simp add: AcceptPendingSyncCheckpoint_def WriteSyncCheckpoint_def)
    next
      case False
      show ?thesis
        using Pair False pend idx Validate_active_eq [OF Pair]
        by (simp add: AcceptPendingSyncCheckpoint_def)
    qed
  qed
  from store accept show ?thesis by (rule conjI)
qed

theorem pending_then_accept_witness:
  "Verify ex_env_early (vchMsg (ex_msg [3] [7])) (vchSig (ex_msg [3] [7]))
   \<and> Unserialize ex_env_early (vchMsg (ex_msg [3] [7])) = Some (1, 3)
   \<and> mapBlockIndex (ex_env_early\<lparr>mapBlockIndex := [1 \<mapsto> blkG, 2 \<mapsto> blkA]\<rparr>) 3 = None
   \<and> ProcessSyncCheckpoint (ex_env_early\<lparr>mapBlockIndex := [1 \<mapsto> blkG, 2 \<mapsto> blkA]\<rparr>)
        (ex_msg [3] [7]) (ex_state 2)
      = Inr (False, (ex_state 2)\<lparr>hashPendingCheckpoint := 3,
           checkpointMessagePending := (ex_msg [3] [7])\<lparr>nVersion := 1, hashCheckpoint := 3\<rparr>\<rparr>)
   \<and> mapBlockIndex ex_env 3 = Some blkB
   \<and> Contains (chainActive ex_env) blkB \<and> txdbWrite ex_env 3
   \<and> AcceptPendingSyncCheckpoint ex_env ((ex_state 2)\<lparr>hashPendingCheckpoint := 3,
           checkpointMessagePending := (ex_msg [3] [7])\<lparr>nVersion := 1, hashCheckpoint := 3\<rparr>\<rparr>)
      = (True, (ex_state 3)\<lparr>checkpointMessage :=
           (ex_msg [3] [7])\<lparr>nVersion := 1, hashCheckpoint := 3\<rparr>\<rparr>)
   \<and> AcceptPendingSyncCheckpoint ex_env ((ex_state 3)\<lparr>hashPendingCheckpoint := 4\<rparr>)
      = (False, (ex_state 3)\<lparr>hashInvalidCheckpoint := 4\<rparr>)"
  using pending_then_accept [where e = "ex_env_early\<lparr>mapBlockIndex := [1 \<mapsto> blkG, 2 \<mapsto> blkA]\<rparr>"
      and m = "ex_msg [3] [7]" and v = 1 and h = 3 and s = "ex_state 2" and e' = ex_env
      and pindex = blkB
      and ?s1.0 = "(ex_state 2)\<lparr>hashPendingCheckpoint := 3,
           checkpointMessagePending := (ex_msg [3] [7])\<lparr>nVersion := 1, hashCheckpoint := 3\<rparr>\<rparr>"]
    pending_then_accept [where e = "ex_env_early\<lparr>mapBlockIndex := [1 \<mapsto> blkG, 2 \<mapsto> blkA]\<rparr>"
      and m = "ex_msg [3] [7]" and v = 1 and h = 3 and s = "ex_state 2" and e' = ex_env
      and pindex = blkC
      and ?s1.0 = "(ex_state 3)\<lparr>hashPendingCheckpoint := 4\<rparr>"]
  by (simp add: fun_defs ex_env_early_def ex_msg_def ex_defs)

subsection \<open>CheckSignature\<close>

text \<open>
  Claim C7, as stated, on a message whose \<open>hashCheckpoint\<close> field is 5 while its signed
  payload unserializes to 4: \<open>CheckSignature\<close> succeeds, leaving 4 in the field, and
  \<open>ProcessSyncCheckpoint\<close> makes hash 4 the active checkpoint.
\<close>

theorem CheckSignature_field_mismatch_counterexample:
  "Unserialize ex_env (vchMsg ((ex_msg [4] [7])\<lparr>hashCheckpoint := 5\<rparr>)) = Some (1, 4)
   \<and> hashCheckpoint ((ex_msg [4] [7])\<lparr>hashCheckpoint := 5\<rparr>) = 5
   \<and> CheckSignature ex_env ((ex_msg [4] [7])\<lparr>hashCheckpoint := 5\<rparr>)
       = Inr (True, (ex_msg [4] [7])\<lparr>nVersion := 1, hashCheckpoint := 4\<rparr>)
   \<and> ProcessSyncCheckpoint ex_env ((ex_msg [4] [7])\<lparr>hashCheckpoint := 5\<rparr>) (ex_state 2)
       = Inr (True, ex_accepted)
   \<and> ex_accepted \<noteq> ex_state 2"
  by (simp add: fun_defs ex_accepted_def ex_msg_def ex_defs)

text \<open>
  Claim C7, amended. \<open>CheckSignature\<close> succeeds exactly when the signature verifies
  under the master public key and the payload unserializes; it does not compare the
  \<open>hashCheckpoint\<close> field with the payload but overwrites the field (and the version)
  with what the payload holds. So after a successful check the field is the payload's
  hash, and the value the field had before has no influence: neither on the check of a
  message whose signature verifies nor on what \<open>ProcessSyncCheckpoint\<close> returns and does
  to the state. A message whose signature does not verify fails the check and leaves the
  state as it was.
\<close>

theorem CheckSignature_payload_decides:
  "(CheckSignature e m = Inr (True, m') \<longrightarrow>
      Verify e (vchMsg m) (vchSig m)
      \<and> Unserialize e (vchMsg m) = Some (nVersion m', hashCheckpoint m')
      \<and> m' = m\<lparr>nVersion := nVersion m', hashCheckpoint := hashCheckpoint m'\<rparr>)
   \<and> (Verify e (vchMsg m) (vchSig m) \<and> Unserialize e (vchMsg m) = Some (v, h) \<longrightarrow>
        CheckSignature e m = Inr (True, m\<lparr>nVersion := v, hashCheckpoint := h\<rparr>))
   \<and> (Verify e (vchMsg m) (vchSig m) \<longrightarrow>
        CheckSignature e (m\<lparr>hashCheckpoint := x\<rparr>) = CheckSignature e m)
   \<and> ProcessSyncCheckpoint e (m\<lparr>hashCheckpoint := x\<rparr>) s = ProcessSyncCheckpoint e m s
   \<and> (\<not> Verify e (vchMsg m) (vchSig m) \<longrightarrow>
        CheckSignature e m = Inr (False, m) \<and> ProcessSyncCheckpoint e m s = Inr (False, s))"
  by (auto simp: CheckSignature_def ProcessSyncCheckpoint_def split: option.splits)

theorem CheckSignature_payload_decides_witness:
  "CheckSignature ex_env ((ex_msg [4] [7])\<lparr>hashCheckpoint := 5\<rparr>)
       = Inr (True, (ex_msg [4] [7])\<lparr>nVersion := 1, hashCheckpoint := 4\<rparr>)
   \<and> Verify ex_env (vchMsg ((ex_msg [4] [7])\<lparr>hashCheckpoint := 5\<rparr>))
        (vchSig ((ex_msg [4] [7])\<lparr>hashCheckpoint := 5\<rparr>))
   \<and> \<not> Verify ex_env (vchMsg (ex_msg [4] [8])) (vchSig (ex_msg [4] [8]))
   \<and> CheckSignature ex_env (ex_msg [4] [8]) = Inr (False, ex_msg [4] [8])
   \<and> ProcessSyncCheckpoint ex_env (ex_msg [4] [8]) (ex_state 2) = Inr (False, ex_state 2)"
  using CheckSignature_payload_decides [where e = ex_env
      and m = "(ex_msg [4] [7])\<lparr>hashCheckpoint := 5\<rparr>"
      and m' = "(ex_msg [4] [7])\<lparr>nVersion := 1, hashCheckpoint := 4\<rparr>"
      and x = 5 and s = "ex_state 2" and v = 1 and h = 4]
    CheckSignature_payload_decides [where e = ex_env and m = "ex_msg [4] [8]"
      and m' = "ex_msg [4] [8]" and x = 5 and s = "ex_state 2" and v = 1 and h = 4]
  by (simp add: fun_defs ex_msg_def ex_defs)

subsection \<open>AutoSelectSyncCheckpoint\<close>





subsection \<open>Processing the same message twice\<close>

text \<open>
  Claim C9 in the small block index. The message for hash 4 (\<open>blkC\<close>, a child of the
  checkpoint \<open>blkA\<close> on a side branch) is processed with success and \<open>blkC\<close> becomes the
  active checkpoint. Processing the same message again runs \<open>ValidateSyncCheckpoint\<close> on a
  candidate of the checkpoint's own height that is not on the active chain: the call
  returns false and records the active checkpoint's own hash in \<open>hashInvalidCheckpoint\<close>,
  so the state after the second call is not the state after the first.
\<close>

theorem ProcessSyncCheckpoint_twice_off_chain:
  "ProcessSyncCheckpoint ex_env (ex_msg [4] [7]) (ex_state 2) = Inr (True, ex_accepted)
   \<and> ProcessSyncCheckpoint ex_env (ex_msg [4] [7]) ex_accepted
       = Inr (False, ex_accepted\<lparr>hashInvalidCheckpoint := 4\<rparr>)
   \<and> hashSyncCheckpoint ex_accepted = 4
   \<and> hashInvalidCheckpoint ex_accepted = 0
   \<and> ex_accepted\<lparr>hashInvalidCheckpoint := 4\<rparr> \<noteq> ex_accepted"
  by (simp add: fun_defs ex_accepted_def ex_msg_def ex_defs)

subsection \<open>The direct path and the pending path\<close>

text \<open>
  Claim C10. For a message whose signature verifies and whose payload names a hash \<open>h\<close>
  in the block index, \<open>ValidateSyncCheckpoint\<close> succeeds exactly when the entry descends
  from the active checkpoint by the ancestor walk, and \<open>ProcessSyncCheckpoint\<close> makes \<open>h\<close>
  the active checkpoint exactly when it does and the database write succeeds; whether
  a call of \<open>ProcessSyncCheckpoint\<close> accepts, and the state it then yields, are the same
  under every active chain \<open>c\<close>. \<open>AcceptPendingSyncCheckpoint\<close>, for a pending hash in the
  index, succeeds only if the entry also is on the active chain; when the entry descends
  from the checkpoint but is off the active chain it returns false and leaves the state
  as it was, the pending hash still set.
\<close>

theorem direct_and_pending_paths:
  "(Verify e (vchMsg m) (vchSig m) \<and> Unserialize e (vchMsg m) = Some (v, h)
      \<and> mapBlockIndex e h = Some pindex \<longrightarrow>
      fst (ValidateSyncCheckpoint e h s) = descends_from_checkpoint e s pindex
      \<and> ProcessSyncCheckpoint e m s =
          (if descends_from_checkpoint e s pindex \<and> txdbWrite e h
           then Inr (True, s\<lparr>txdbSyncCheckpoint := Some h, hashSyncCheckpoint := h,
                             checkpointMessage := m\<lparr>nVersion := v, hashCheckpoint := h\<rparr>,
                             hashPendingCheckpoint := 0,
                             checkpointMessagePending := SetNull\<rparr>)
           else Inr (False, snd (ValidateSyncCheckpoint e h s))))
   \<and> (ProcessSyncCheckpoint (e\<lparr>chainActive := c\<rparr>) m s = Inr (True, s'))
       = (ProcessSyncCheckpoint e m s = Inr (True, s'))
   \<and> (hashPendingCheckpoint s \<noteq> 0
      \<and> mapBlockIndex e (hashPendingCheckpoint s) = Some pindex' \<longrightarrow>
      (fst (AcceptPendingSyncCheckpoint e s) \<longrightarrow>
         descends_from_checkpoint e s pindex' \<and> Contains (chainActive e) pindex')
      \<and> (descends_from_checkpoint e s pindex' \<and> \<not> Contains (chainActive e) pindex' \<longrightarrow>
           AcceptPendingSyncCheckpoint e s = (False, s)))"
proof -
  have chain: "(ProcessSyncCheckpoint (e\<lparr>chainActive := c\<rparr>) m s = Inr (True, s'))
       = (ProcessSyncCheckpoint e m s = Inr (True, s'))"
    by (rule Process_accepts_any_chain)
  have direct: "fst (ValidateSyncCheckpoint e h s) = descends_from_checkpoint e s pindex
      \<and> ProcessSyncCheckpoint e m s =
          (if descends_from_checkpoint e s pindex \<and> txdbWrite e h
           then Inr (True, s\<lparr>txdbSyncCheckpoint := Some h, hashSyncCheckpoint := h,
                             checkpointMessage := m\<lparr>nVersion := v, hashCheckpoint := h\<rparr>,
                             hashPendingCheckpoint := 0,
                             checkpointMessagePending := SetNull\<rparr>)
           else Inr (False, snd (ValidateSyncCheckpoint e h s)))"
    if "Verify e (vchMsg m) (vchSig m)" and "Unserialize e (vchMsg m) = Some (v, h)"
      and idx: "mapBlockIndex e h = Some pindex"
  proof (cases "ValidateSyncCheckpoint e h s")
    case (Pair ok s1)
    show ?thesis
      using that Pair Validate_descends [OF idx, of s s1] Validate_fst_descends [OF idx, of s]
      by (cases ok) (auto simp: ProcessSyncCheckpoint_def CheckSignature_def WriteSyncCheckpoint_def)
  qed
  have pending: "(fst (AcceptPendingSyncCheckpoint e s) \<longrightarrow>
         descends_from_checkpoint e s pindex' \<and> Contains (chainActive e) pindex')
      \<and> (descends_from_checkpoint e s pindex' \<and> \<not> Contains (chainActive e) pindex' \<longrightarrow>
           AcceptPendingSyncCheckpoint e s = (False, s))"
    if pend: "hashPendingCheckpoint s \<noteq> 0"
      and idx: "mapBlockIndex e (hashPendingCheckpoint s) = Some pindex'"
  proof (cases "ValidateSyncCheckpoint e (hashPendingCheckpoint s) s")
    case (Pair ok s1)
    show ?thesis
      using that Pair Validate_descends [OF idx, of s s1] Validate_fst_descends [OF idx, of s]
      by (cases ok)
        (auto simp: AcceptPendingSyncCheckpoint_def WriteSyncCheckpoint_def
           split: if_splits prod.splits bool.splits)
  qed
  show ?thesis using direct chain pending by blast
qed

theorem direct_and_pending_paths_witness:
  "Verify ex_env (vchMsg (ex_msg [4] [7])) (vchSig (ex_msg [4] [7]))
   \<and> Unserialize ex_env (vchMsg (ex_msg [4] [7])) = Some (1, 4)
   \<and> mapBlockIndex ex_env 4 = Some blkC
   \<and> \<not> Contains (chainActive ex_env) blkC
   \<and> descends_from_checkpoint ex_env (ex_state 2) blkC
   \<and> ProcessSyncCheckpoint ex_env (ex_msg [4] [7]) (ex_state 2) = Inr (True, ex_accepted)
   \<and> hashSyncCheckpoint ex_accepted = 4
   \<and> hashPendingCheckpoint ex_pending \<noteq> 0
   \<and> mapBlockIndex ex_env (hashPendingCheckpoint ex_pending) = Some blkC
   \<and> descends_from_checkpoint ex_env ex_pending blkC
   \<and> AcceptPendingSyncCheckpoint ex_env ex_pending = (False, ex_pending)
   \<and> hashPendingCheckpoint ex_pending = 4"
  using direct_and_pending_paths [where e = ex_env and m = "ex_msg [4] [7]" and v = 1 and h = 4
      and pindex = blkC and s = "ex_pending" and pindex' = blkC]
    direct_and_pending_paths [where e = ex_env and m = "ex_msg [4] [7]" and v = 1 and h = 4
      and pindex = blkC and s = "ex_state 2" and pindex' = blkC]
  by (simp add: fun_defs descends_from_checkpoint_def ancestor_at_def ex_accepted_def
        ex_pending_def ex_msg_def ex_defs)


end
